theory Spec2Isabelle
  imports Complex_Main "HOL-Library.Word" "HOL-Library.Multiset"
begin

section \<open>Exceptions\<close>

text \<open>
  The exception classes that \<^verbatim>\<open>gmail_sender.py\<close> and \<^verbatim>\<open>calculate.py\<close> raise,
  meet or tell apart. A value of \<open>exn_class\<close> is the most specific of these classes
  that a raised exception belongs to; \<open>PyException\<close> stands for every other subclass of
  Python's \<^verbatim>\<open>Exception\<close>. An exception carries the text that
  \<^verbatim>\<open>str(e)\<close> yields. \<^verbatim>\<open>KeyboardInterrupt\<close> and \<^verbatim>\<open>SystemExit\<close> are not
  subclasses of \<^verbatim>\<open>Exception\<close>; they are not failures of the program and are not
  modelled.
\<close>

datatype exn_class =
    SMTPAuthenticationError
  | SMTPException
  | FileNotFoundError
  | ValueError
  | UnicodeEncodeError
  | ZeroDivisionError
  | OverflowError
  | PyException

datatype exn = Exn exn_class string

fun class_of :: "exn \<Rightarrow> exn_class" where
  "class_of (Exn c msg) = c"

fun str :: "exn \<Rightarrow> string" where
  "str (Exn c msg) = msg"

text \<open>
  \<open>isinstance e c\<close>: does the clause \<^verbatim>\<open>except c\<close> catch \<open>e\<close>? In
  \<^verbatim>\<open>smtplib\<close>, \<^verbatim>\<open>SMTPAuthenticationError\<close> is a subclass of
  \<^verbatim>\<open>SMTPException\<close>, \<^verbatim>\<open>UnicodeEncodeError\<close> is a subclass of \<^verbatim>\<open>ValueError\<close>, and
  every class here is a subclass of \<^verbatim>\<open>Exception\<close>.
\<close>

fun isinstance :: "exn \<Rightarrow> exn_class \<Rightarrow> bool" where
  "isinstance e SMTPAuthenticationError = (class_of e = SMTPAuthenticationError)"
| "isinstance e SMTPException =
     (class_of e = SMTPAuthenticationError \<or> class_of e = SMTPException)"
| "isinstance e FileNotFoundError = (class_of e = FileNotFoundError)"
| "isinstance e ValueError = (class_of e = ValueError \<or> class_of e = UnicodeEncodeError)"
| "isinstance e UnicodeEncodeError = (class_of e = UnicodeEncodeError)"
| "isinstance e ZeroDivisionError = (class_of e = ZeroDivisionError)"
| "isinstance e OverflowError = (class_of e = OverflowError)"
| "isinstance e PyException = True"

section \<open>calculate.py\<close>

text \<open>
  \<^verbatim>\<open>
  def divide_numbers(a, b):
      if b == 0:
          raise ValueError("Cannot divide by zero")
      return a / b
  \<close>
  The operands are Python integers, as in the file's own calls. Python's \<^verbatim>\<open>/\<close> on
  integers is true division: it raises \<^verbatim>\<open>ZeroDivisionError\<close> for a zero divisor,
  raises \<^verbatim>\<open>OverflowError\<close> when the quotient, rounded to the nearest float, is beyond
  the float range, and returns the float nearest to the quotient otherwise. The largest
  float is \<open>2^1024 - 2^971\<close>; a quotient rounds beyond it from \<open>2^1024 - 2^970\<close> on.
  \<open>Nearest_float q\<close> stands for the float nearest to the real \<open>q\<close>; the rounding
  itself is not modelled.
\<close>

datatype py_float = Nearest_float real

definition float_overflow_bound :: real where
  "float_overflow_bound = 2 ^ 1024 - 2 ^ 970"

definition int_truediv :: "int \<Rightarrow> int \<Rightarrow> exn + py_float" where
  "int_truediv a b =
     (if b = 0 then Inl (Exn ZeroDivisionError ''division by zero'')
      else if float_overflow_bound \<le> \<bar>real_of_int a / real_of_int b\<bar>
      then Inl (Exn OverflowError ''integer division result too large for a float'')
      else Inr (Nearest_float (real_of_int a / real_of_int b)))"

definition divide_numbers :: "int \<Rightarrow> int \<Rightarrow> exn + py_float" where
  "divide_numbers a b =
     (if b = 0 then Inl (Exn ValueError ''Cannot divide by zero'')
      else int_truediv a b)"

section \<open>gmail_sender.py: data\<close>

type_synonym bytes = "8 word list"

text \<open>
  A MIME part as the calls of the source build it. \<open>part_headers\<close> holds the headers
  that the source adds (\<^verbatim>\<open>add_header\<close>, \<^verbatim>\<open>encode_base64\<close>); the content type is kept
  in \<open>maintype\<close> and \<open>subtype\<close>. The payload \<open>Base64 d\<close> is the base64 text of the
  bytes \<open>d\<close>.
\<close>

datatype payload = Text string | Raw bytes | Base64 bytes

record mime_part =
  maintype :: string
  subtype :: string
  part_headers :: "(string \<times> string) list"
  payload :: "payload option"

text \<open>
  \<^verbatim>\<open>MIMEMultipart()\<close>: headers in the order they are set, parts in the order they
  are attached. The multipart boundary is chosen by \<^verbatim>\<open>as_string()\<close> at
  transmission, not at composition, and is not part of the record.
\<close>

record mime_message =
  headers :: "(string \<times> string) list"
  parts :: "mime_part list"

definition MIMEMultipart :: mime_message where
  "MIMEMultipart = \<lparr>headers = [], parts = []\<rparr>"

definition set_header :: "mime_message \<Rightarrow> string \<Rightarrow> string \<Rightarrow> mime_message" where
  "set_header message name v = message\<lparr>headers := headers message @ [(name, v)]\<rparr>"

definition attach :: "mime_message \<Rightarrow> mime_part \<Rightarrow> mime_message" where
  "attach message part = message\<lparr>parts := parts message @ [part]\<rparr>"

definition MIMEText :: "string \<Rightarrow> string \<Rightarrow> mime_part" where
  "MIMEText text sub =
     \<lparr>maintype = ''text'', subtype = sub, part_headers = [], payload = Some (Text text)\<rparr>"

definition MIMEBase :: "string \<Rightarrow> string \<Rightarrow> mime_part" where
  "MIMEBase main sub =
     \<lparr>maintype = main, subtype = sub, part_headers = [], payload = None\<rparr>"

definition set_payload :: "mime_part \<Rightarrow> bytes \<Rightarrow> mime_part" where
  "set_payload part d = part\<lparr>payload := Some (Raw d)\<rparr>"

definition add_header :: "mime_part \<Rightarrow> string \<Rightarrow> string \<Rightarrow> mime_part" where
  "add_header part name v = part\<lparr>part_headers := part_headers part @ [(name, v)]\<rparr>"

text \<open>
  \<^verbatim>\<open>encoders.encode_base64(part)\<close> replaces the payload by its base64 text and sets
  \<^verbatim>\<open>Content-Transfer-Encoding: base64\<close>. The source calls it on raw bytes only.
\<close>

definition encode_base64 :: "mime_part \<Rightarrow> mime_part" where
  "encode_base64 part =
     (case payload part of
        Some (Raw d) \<Rightarrow>
          part\<lparr>payload := Some (Base64 d),
               part_headers := part_headers part @ [(''Content-Transfer-Encoding'', ''base64'')]\<rparr>
      | _ \<Rightarrow> part)"

text \<open>\<^verbatim>\<open>sep.join(xs)\<close>\<close>

fun join :: "string \<Rightarrow> string list \<Rightarrow> string" where
  "join sep [] = []"
| "join sep [x] = x"
| "join sep (x # y # ys) = x @ sep @ join sep (y # ys)"

text \<open>\<^verbatim>\<open>os.path.basename\<close> (POSIX): what follows the last slash.\<close>

definition basename :: "string \<Rightarrow> string" where
  "basename p = rev (takeWhile (\<lambda>c. c \<noteq> CHR ''/'') (rev p))"

text \<open>Decimal text of a number, as an f-string prints it.\<close>

function str_nat :: "nat \<Rightarrow> string" where
  "str_nat n =
     (if n < 10 then [char_of (48 + n)]
      else str_nat (n div 10) @ [char_of (48 + n mod 10)])"
  by pat_completeness auto
termination
  by (relation "measure id") auto

declare str_nat.simps [simp del]

text \<open>The check mark and the cross of the status lines, as UTF-8 bytes.\<close>

definition check_mark :: string where
  "check_mark = [char_of (0xE2 :: nat), char_of (0x9C :: nat), char_of (0x93 :: nat)]"

definition cross_mark :: string where
  "cross_mark = [char_of (0xE2 :: nat), char_of (0x9C :: nat), char_of (0x97 :: nat)]"

text \<open>
  The sender object and the arguments of \<^verbatim>\<open>send_email\<close>. An optional list
  argument is \<open>None\<close> when it is left out.
\<close>

record gmail_sender =
  sender_email :: string
  password :: string

record request =
  recipient_email :: string
  subject :: string
  message_body :: string
  is_html :: bool
  cc :: "string list option"
  bcc :: "string list option"
  attachments :: "string list option"

text \<open>Python's truth value of an optional list: \<^verbatim>\<open>None\<close> and \<^verbatim>\<open>[]\<close> are false.\<close>

fun truthy :: "'a list option \<Rightarrow> bool" where
  "truthy None = False"
| "truthy (Some xs) = (xs \<noteq> [])"

fun list_of :: "'a list option \<Rightarrow> 'a list" where
  "list_of None = []"
| "list_of (Some xs) = xs"

section \<open>gmail_sender.py: collaborators and state\<close>

text \<open>
  The filesystem: opening and reading a path raises or yields the file's bytes.
\<close>

type_synonym filesystem = "string \<Rightarrow> exn + bytes"

text \<open>
  The libraries that \<^verbatim>\<open>send_email\<close> calls after composition. \<open>as_string\<close> is
  \<^verbatim>\<open>message.as_string()\<close>: it yields the text of the message, with a boundary of its
  own choice, or raises (a header value that holds a line break and a further header line
  is refused). The other fields are the SMTP server as \<^verbatim>\<open>smtplib.SMTP\<close> presents it:
  each call returns normally (\<open>None\<close>) or raises.
\<close>

record collaborators =
  as_string :: "mime_message \<Rightarrow> exn + string"
  smtp_connect :: "string \<Rightarrow> nat \<Rightarrow> exn option"
  smtp_starttls :: "exn option"
  smtp_login :: "string \<Rightarrow> string \<Rightarrow> exn option"
  smtp_sendmail :: "string \<Rightarrow> string list \<Rightarrow> string \<Rightarrow> exn option"
  smtp_quit :: "exn option"

text \<open>
  What a call leaves behind: the lines printed, the state of the connection, and the
  arguments of every \<^verbatim>\<open>sendmail\<close> call. The connection is \<open>Connected\<close> once
  \<^verbatim>\<open>smtplib.SMTP(host, port)\<close> has returned, and \<open>Closed\<close> once \<^verbatim>\<open>quit()\<close> has
  been called (\<^verbatim>\<open>smtplib\<close> closes the socket on the error paths of \<^verbatim>\<open>quit\<close> too).
\<close>

datatype conn_state = NotConnected | Connected | Closed

record world =
  stdout :: "string list"
  conn :: conn_state
  sendmail_calls :: "(string \<times> string list \<times> string) list"

text \<open>
  \<^verbatim>\<open>print(line)\<close> of a line that holds no mark: the progress lines and the lines of
  \<^verbatim>\<open>_attach_file\<close>. Their text is taken to be encodable by the output stream.
\<close>

definition print :: "string \<Rightarrow> world \<Rightarrow> world" where
  "print line w = w\<lparr>stdout := stdout w @ [line]\<rparr>"

text \<open>
  \<^verbatim>\<open>print(line)\<close> of a status line, which begins with the check mark or the cross
  (lines 109, 113, 118 and 122). The marks are outside ASCII and Latin-1: a stream that
  cannot encode them (\<open>marks = False\<close>) raises \<^verbatim>\<open>UnicodeEncodeError\<close> and prints
  nothing.
\<close>

definition print_status :: "bool \<Rightarrow> string \<Rightarrow> world \<Rightarrow> (exn + unit) \<times> world" where
  "print_status marks line w =
     (if marks then (Inr (), print line w)
      else (Inl (Exn UnicodeEncodeError ''codec can't encode character''), w))"

definition SMTP_SERVER :: string where
  "SMTP_SERVER = ''smtp.gmail.com''"

definition SMTP_PORT :: nat where
  "SMTP_PORT = 587"

section \<open>gmail_sender.py: operations\<close>

text \<open>
  \<^verbatim>\<open>GmailSender._attach_file(message, file_path)\<close>. The \<^verbatim>\<open>try\<close> block reads
  the file, builds the part and attaches it; \<^verbatim>\<open>except FileNotFoundError\<close> and
  \<^verbatim>\<open>except Exception\<close> print a warning and leave the message as it is. The result
  is the message after the call, or the exception that no clause caught.
\<close>

definition attach_file ::
  "filesystem \<Rightarrow> mime_message \<Rightarrow> string \<Rightarrow> world \<Rightarrow> (exn + mime_message) \<times> world" where
  "attach_file fs message file_path w =
     (case fs file_path of
        Inr d \<Rightarrow>
          (let part = MIMEBase ''application'' ''octet-stream'';
               part = set_payload part d;
               part = encode_base64 part;
               part = add_header part ''Content-Disposition''
                        (''attachment; filename= '' @ basename file_path)
           in (Inr (attach message part), print (''  Attached: '' @ basename file_path) w))
      | Inl e \<Rightarrow>
          if isinstance e FileNotFoundError then
            (Inr message, print (''  Warning: File not found: '' @ file_path) w)
          else if isinstance e PyException then
            (Inr message,
             print (''  Warning: Could not attach '' @ file_path @ '': '' @ str e) w)
          else (Inl e, w))"

text \<open>The loop \<^verbatim>\<open>for file_path in attachments: self._attach_file(message, file_path)\<close>.\<close>

fun attach_files ::
  "filesystem \<Rightarrow> mime_message \<Rightarrow> string list \<Rightarrow> world \<Rightarrow> (exn + mime_message) \<times> world" where
  "attach_files fs message [] w = (Inr message, w)"
| "attach_files fs message (file_path # rest) w =
     (case attach_file fs message file_path w of
        (Inl e, w') \<Rightarrow> (Inl e, w')
      | (Inr message', w') \<Rightarrow> attach_files fs message' rest w')"

text \<open>
  Lines 64 to 81 of \<^verbatim>\<open>send_email\<close>: the message container, its headers, the body
  part and the attachments. The specification calls this step \<^verbatim>\<open>compose\<close>.
\<close>

definition compose ::
  "gmail_sender \<Rightarrow> request \<Rightarrow> filesystem \<Rightarrow> world \<Rightarrow> (exn + mime_message) \<times> world" where
  "compose self req fs w =
     (let message = MIMEMultipart;
          message = set_header message ''From'' (sender_email self);
          message = set_header message ''To'' (recipient_email req);
          message = set_header message ''Subject'' (subject req);
          message = (if truthy (cc req)
                     then set_header message ''Cc'' (join '', '' (list_of (cc req)))
                     else message);
          msg_type = (if is_html req then ''html'' else ''plain'');
          message = attach message (MIMEText (message_body req) msg_type)
      in if truthy (attachments req)
         then attach_files fs message (list_of (attachments req)) w
         else (Inr message, w))"

text \<open>
  Lines 83 to 88: the recipient list handed to \<^verbatim>\<open>sendmail\<close>. The specification
  calls it \<^verbatim>\<open>recipientEnvelope\<close>.
\<close>

definition recipients :: "request \<Rightarrow> string list" where
  "recipients req =
     (let rs = [recipient_email req];
          rs = (if truthy (cc req) then rs @ list_of (cc req) else rs);
          rs = (if truthy (bcc req) then rs @ list_of (bcc req) else rs)
      in rs)"

text \<open>
  Lines 90 to 110: connect, start TLS, log in, serialise and send, quit, report. The
  arguments of \<^verbatim>\<open>sendmail\<close> are evaluated before the call, so \<^verbatim>\<open>as_string()\<close> runs,
  and may raise, before \<^verbatim>\<open>sendmail\<close> is called. Every call may raise; the exception
  leaves the block at once. \<open>marks\<close> says whether the output stream can encode the marks.
\<close>

definition transmit_on ::
  "bool \<Rightarrow> gmail_sender \<Rightarrow> request \<Rightarrow> collaborators \<Rightarrow> string list \<Rightarrow> mime_message \<Rightarrow> world
     \<Rightarrow> (exn + bool) \<times> world" where
  "transmit_on marks self req env rs message w0 =
     (let w1 = print (''Connecting to '' @ SMTP_SERVER @ '':'' @ str_nat SMTP_PORT @ ''...'') w0
      in (case smtp_connect env SMTP_SERVER SMTP_PORT of
            Some e \<Rightarrow> (Inl e, w1)
          | None \<Rightarrow>
         (let w2 = print ''Starting TLS encryption...'' (w1\<lparr>conn := Connected\<rparr>)
          in (case smtp_starttls env of
                Some e \<Rightarrow> (Inl e, w2)
              | None \<Rightarrow>
         (let w3 = print ''Logging in...'' w2
          in (case smtp_login env (sender_email self) (password self) of
                Some e \<Rightarrow> (Inl e, w3)
              | None \<Rightarrow>
         (let w4 = print ''Sending email...'' w3
          in (case as_string env message of
                Inl e \<Rightarrow> (Inl e, w4)
              | Inr text \<Rightarrow>
         (let w5 = w4\<lparr>sendmail_calls :=
                        sendmail_calls w4 @ [(sender_email self, rs, text)]\<rparr>
          in (case smtp_sendmail env (sender_email self) rs text of
                Some e \<Rightarrow> (Inl e, w5)
              | None \<Rightarrow>
         (let w6 = w5\<lparr>conn := Closed\<rparr>
          in (case smtp_quit env of
                Some e \<Rightarrow> (Inl e, w6)
              | None \<Rightarrow>
         (case print_status marks
                 (check_mark @ '' Email sent successfully to '' @ recipient_email req) w6 of
            (Inl e, w7) \<Rightarrow> (Inl e, w7)
          | (Inr u, w7) \<Rightarrow> (Inr True, w7))))))))))))))"

text \<open>The \<^verbatim>\<open>try\<close> block of \<^verbatim>\<open>send_email\<close>, lines 64 to 110.\<close>

definition send_email_try_on ::
  "bool \<Rightarrow> gmail_sender \<Rightarrow> request \<Rightarrow> collaborators \<Rightarrow> filesystem \<Rightarrow> world
     \<Rightarrow> (exn + bool) \<times> world" where
  "send_email_try_on marks self req env fs w =
     (case compose self req fs w of
        (Inl e, w') \<Rightarrow> (Inl e, w')
      | (Inr message, w') \<Rightarrow> transmit_on marks self req env (recipients req) message w')"

text \<open>
  \<^verbatim>\<open>GmailSender.send_email\<close>: the \<^verbatim>\<open>try\<close> block and its three \<^verbatim>\<open>except\<close>
  clauses, tried in the order of the source. The result is the value returned, or the
  exception that leaves the function: one that no clause caught, or one that a clause's
  own \<^verbatim>\<open>print\<close> raised.
\<close>

definition send_email_on ::
  "bool \<Rightarrow> gmail_sender \<Rightarrow> request \<Rightarrow> collaborators \<Rightarrow> filesystem \<Rightarrow> world
     \<Rightarrow> (exn + bool) \<times> world" where
  "send_email_on marks self req env fs w =
     (case send_email_try_on marks self req env fs w of
        (Inr b, w') \<Rightarrow> (Inr b, w')
      | (Inl e, w') \<Rightarrow>
          if isinstance e SMTPAuthenticationError then
            (case print_status marks
                    (cross_mark @
                       '' Authentication failed. Please check your email and App Password.'')
                    w' of
               (Inl e', w'') \<Rightarrow> (Inl e', w'')
             | (Inr u, w'') \<Rightarrow>
                 (Inr False,
                  print
                    ''  Make sure you're using an App Password, not your regular Gmail password.''
                    w''))
          else if isinstance e SMTPException then
            (case print_status marks (cross_mark @ '' SMTP error occurred: '' @ str e) w' of
               (Inl e', w'') \<Rightarrow> (Inl e', w'')
             | (Inr u, w'') \<Rightarrow> (Inr False, w''))
          else if isinstance e PyException then
            (case print_status marks (cross_mark @ '' An error occurred: '' @ str e) w' of
               (Inl e', w'') \<Rightarrow> (Inl e', w'')
             | (Inr u, w'') \<Rightarrow> (Inr False, w''))
          else (Inl e, w'))"



definition send_email ::
  "gmail_sender \<Rightarrow> request \<Rightarrow> collaborators \<Rightarrow> filesystem \<Rightarrow> world \<Rightarrow> (exn + bool) \<times> world" where
  "send_email = send_email_on True"

section \<open>Notions used in the statements\<close>

text \<open>A path is readable when opening and reading it does not raise.\<close>

definition readable :: "filesystem \<Rightarrow> string \<Rightarrow> bool" where
  "readable fs p = (case fs p of Inr d \<Rightarrow> True | Inl e \<Rightarrow> False)"

text \<open>The part that \<^verbatim>\<open>_attach_file\<close> attaches for the file at \<open>p\<close> with the bytes \<open>d\<close>.\<close>

definition attachment_part :: "string \<Rightarrow> bytes \<Rightarrow> mime_part" where
  "attachment_part p d =
     \<lparr>maintype = ''application'', subtype = ''octet-stream'',
      part_headers = [(''Content-Transfer-Encoding'', ''base64''),
                      (''Content-Disposition'', ''attachment; filename= '' @ basename p)],
      payload = Some (Base64 d)\<rparr>"

definition attachment_parts :: "filesystem \<Rightarrow> string list \<Rightarrow> mime_part list" where
  "attachment_parts fs ps =
     map (\<lambda>p. attachment_part p (projr (fs p))) (filter (readable fs) ps)"

text \<open>The line that \<^verbatim>\<open>_attach_file\<close> prints for a path.\<close>

definition attach_report :: "filesystem \<Rightarrow> string \<Rightarrow> string" where
  "attach_report fs p =
     (case fs p of
        Inr d \<Rightarrow> ''  Attached: '' @ basename p
      | Inl e \<Rightarrow>
          if class_of e = FileNotFoundError then ''  Warning: File not found: '' @ p
          else ''  Warning: Could not attach '' @ p @ '': '' @ str e)"


text \<open>The headers of a composed message.\<close>

definition composed_headers :: "gmail_sender \<Rightarrow> request \<Rightarrow> (string \<times> string) list" where
  "composed_headers self req =
     [(''From'', sender_email self), (''To'', recipient_email req),
      (''Subject'', subject req)] @
     (case cc req of
        None \<Rightarrow> []
      | Some xs \<Rightarrow> if xs = [] then [] else [(''Cc'', join '', '' xs)])"



section \<open>Scenarios\<close>

definition ex_sender :: gmail_sender where
  "ex_sender = \<lparr>sender_email = ''me@gmail.com'', password = ''app-password''\<rparr>"

definition ex_request :: request where
  "ex_request =
     \<lparr>recipient_email = ''r@x.com'', subject = ''Test'', message_body = ''Hello'',
      is_html = False, cc = Some [''a@x.com'', ''b@x.com''], bcc = Some [''s@x.com''],
      attachments = Some [''/tmp/report.txt'', ''/nonexistent/path'']\<rparr>"

text \<open>The same address as recipient, in cc and in bcc.\<close>

definition dup_request :: request where
  "dup_request =
     \<lparr>recipient_email = ''r@x.com'', subject = ''Test'', message_body = ''Hello'',
      is_html = False, cc = Some [''r@x.com''], bcc = Some [''r@x.com''],
      attachments = None\<rparr>"

definition ex_files :: filesystem where
  "ex_files p =
     (if p = ''/tmp/report.txt'' then Inr [72, 105]
      else Inl (Exn FileNotFoundError ''No such file or directory''))"



text \<open>A stand-in for the text of a message: its header lines.\<close>

definition header_lines :: "mime_message \<Rightarrow> string" where
  "header_lines m = concat (map (\<lambda>h. fst h @ '': '' @ snd h @ [CHR 0x0A]) (headers m))"

definition server_ok :: collaborators where
  "server_ok =
     \<lparr>as_string = (\<lambda>m. Inr (header_lines m)),
      smtp_connect = (\<lambda>host port. None), smtp_starttls = None,
      smtp_login = (\<lambda>user pw. None), smtp_sendmail = (\<lambda>from_addr to_addrs msg. None),
      smtp_quit = None\<rparr>"

text \<open>The serialiser refuses the message; the server would accept everything.\<close>

definition serialiser_refuses :: collaborators where
  "serialiser_refuses =
     server_ok\<lparr>as_string :=
       (\<lambda>m. Inl (Exn PyException
                   ''header value appears to contain an embedded header''))\<rparr>"

definition server_rejects_login :: collaborators where
  "server_rejects_login =
     server_ok\<lparr>smtp_login :=
       (\<lambda>user pw. Some (Exn SMTPAuthenticationError ''535 Bad credentials''))\<rparr>"



definition world0 :: world where
  "world0 = \<lparr>stdout = [], conn = NotConnected, sendmail_calls = []\<rparr>"

section \<open>The operations in closed form\<close>

lemma attach_file_eq:
  "attach_file fs m p w =
     (Inr (m\<lparr>parts := parts m @ attachment_parts fs [p]\<rparr>), print (attach_report fs p) w)"
  by (cases "fs p")
     (simp_all add: attach_file_def attachment_parts_def readable_def attachment_part_def
        attach_report_def MIMEBase_def set_payload_def encode_base64_def add_header_def
        attach_def Let_def)

lemma attachment_parts_Cons:
  "attachment_parts fs (p # ps) = attachment_parts fs [p] @ attachment_parts fs ps"
  by (simp add: attachment_parts_def)

lemma attach_files_eq:
  "attach_files fs m ps w =
     (Inr (m\<lparr>parts := parts m @ attachment_parts fs ps\<rparr>),
      w\<lparr>stdout := stdout w @ map (attach_report fs) ps\<rparr>)"
proof (induction ps arbitrary: m w)
  case Nil
  show ?case by (simp add: attachment_parts_def)
next
  case (Cons p ps)
  show ?case
    by (simp add: attach_file_eq Cons.IH print_def attachment_parts_Cons [of fs p ps])
qed

lemma compose_eq:
  "compose self req fs w =
     (Inr \<lparr>headers = composed_headers self req,
           parts = MIMEText (message_body req) (if is_html req then ''html'' else ''plain'') #
                   attachment_parts fs (list_of (attachments req))\<rparr>,
      w\<lparr>stdout := stdout w @ map (attach_report fs) (list_of (attachments req))\<rparr>)"
proof -
  have a: "\<not> truthy (attachments req) \<Longrightarrow> list_of (attachments req) = []"
    by (cases "attachments req") auto
  show ?thesis
    by (cases "cc req")
       (auto simp: compose_def Let_def attach_files_eq MIMEMultipart_def set_header_def
          attach_def composed_headers_def a attachment_parts_def)
qed

lemma recipients_eq:
  "recipients req = recipient_email req # list_of (cc req) @ list_of (bcc req)"
  by (cases "cc req"; cases "bcc req") (auto simp: recipients_def Let_def)




lemma transmit_on_conn:
  "conn (snd (transmit_on marks self req env rs m w)) =
     (if smtp_connect env SMTP_SERVER SMTP_PORT \<noteq> None then conn w
      else if smtp_starttls env = None \<and>
              smtp_login env (sender_email self) (password self) = None \<and>
              (case as_string env m of
                 Inl e \<Rightarrow> False
               | Inr text \<Rightarrow> smtp_sendmail env (sender_email self) rs text = None)
           then Closed else Connected)"
  by (simp add: transmit_on_def Let_def print_def print_status_def
      split: option.split sum.split)


lemma send_email_on_conn:
  "conn (snd (send_email_on marks self req env fs w)) =
     conn (snd (send_email_try_on marks self req env fs w))"
  by (cases "send_email_try_on marks self req env fs w")
     (auto simp: send_email_on_def print_def print_status_def split: sum.split)



lemma no_text_attachment:
  "filter (\<lambda>p. maintype p = ''text'') (attachment_parts fs ps) = []"
  by (induction ps) (simp_all add: attachment_parts_def attachment_part_def)



section \<open>The claims\<close>

text \<open>
  C1. The claim: once the connection is acquired, it is closed before \<^verbatim>\<open>send_email\<close>
  returns, on every exit path. The code calls \<^verbatim>\<open>server.quit()\<close> on the success path
  only. Here the server rejects the login: \<^verbatim>\<open>send_email\<close> returns \<^verbatim>\<open>False\<close> and
  the connection that \<^verbatim>\<open>smtplib.SMTP\<close> opened is still open.
\<close>

theorem send_email_login_rejected_leaves_connection_open:
  "fst (send_email ex_sender ex_request server_rejects_login ex_files world0) = Inr False \<and>
   conn (snd (send_email ex_sender ex_request server_rejects_login ex_files world0)) = Connected"
  by code_simp

text \<open>
  The same on every failing path after the connection is acquired: when starttls, login,
  \<^verbatim>\<open>as_string\<close> or sendmail raises, \<^verbatim>\<open>send_email\<close> ends with the connection open.
\<close>

lemma send_email_leaves_connection_open:
  assumes "smtp_connect env SMTP_SERVER SMTP_PORT = None"
    and "smtp_starttls env \<noteq> None \<or>
         smtp_login env (sender_email self) (password self) \<noteq> None \<or>
         isl (as_string env (projr (fst (compose self req fs w)))) \<or>
         smtp_sendmail env (sender_email self) (recipients req)
           (projr (as_string env (projr (fst (compose self req fs w))))) \<noteq> None"
  shows "conn (snd (send_email_on marks self req env fs w)) = Connected"
  using assms
  by (auto simp: send_email_on_conn send_email_try_on_def compose_eq transmit_on_conn
      split: sum.splits)

text \<open>
  On the success path the connection is closed.
\<close>

lemma send_email_success_closes_connection:
  "fst (send_email ex_sender ex_request server_ok ex_files world0) = Inr True \<and>
   conn (snd (send_email ex_sender ex_request server_ok ex_files world0)) = Closed"
  by code_simp

text \<open>
  When \<^verbatim>\<open>as_string()\<close> refuses the message, \<^verbatim>\<open>send_email\<close> returns \<^verbatim>\<open>False\<close>
  though no call on the server raises; \<^verbatim>\<open>sendmail\<close> is not called and the connection
  stays open.
\<close>

lemma send_email_serialiser_refuses:
  "fst (send_email ex_sender ex_request serialiser_refuses ex_files world0) = Inr False \<and>
   sendmail_calls (snd (send_email ex_sender ex_request serialiser_refuses ex_files world0)) = [] \<and>
   conn (snd (send_email ex_sender ex_request serialiser_refuses ex_files world0)) = Connected"
  by code_simp




text \<open>
  C3, as stated: an address that appears in more than one of the three roles occurs in the
  envelope once. It fails: the code builds a list, and the address that is recipient, cc
  and bcc occurs in it three times.
\<close>

theorem recipients_keeps_duplicates:
  "recipients dup_request = [''r@x.com'', ''r@x.com'', ''r@x.com''] \<and>
   count_list (recipients dup_request) ''r@x.com'' = 3"
  by code_simp

text \<open>
  C3, amended: the envelope is the list of the recipient, then the cc addresses, then the
  bcc addresses, in order. Its elements are those addresses and no others, and an address
  occurs in it once for each of its occurrences in the three roles.
\<close>

theorem recipients_list:
  "recipients req = recipient_email req # list_of (cc req) @ list_of (bcc req) \<and>
   set (recipients req) =
     {recipient_email req} \<union> set (list_of (cc req)) \<union> set (list_of (bcc req)) \<and>
   count_list (recipients req) a =
     count_list [recipient_email req] a + count_list (list_of (cc req)) a +
     count_list (list_of (bcc req)) a"
  by (simp add: recipients_eq)

theorem recipients_list_witness:
  "recipients ex_request = [''r@x.com'', ''a@x.com'', ''b@x.com'', ''s@x.com''] \<and>
   set (recipients ex_request) = {''r@x.com'', ''a@x.com'', ''b@x.com'', ''s@x.com''}"
  using recipients_list [of ex_request "''r@x.com''"]
  by (simp add: ex_request_def insert_commute)

text \<open>
  C4. The claim: no error leaves \<^verbatim>\<open>send_email\<close>, and it returns \<^verbatim>\<open>True\<close> exactly
  when the transmission completes without an error of the server. The status lines are
  printed unguarded, in the \<^verbatim>\<open>except\<close> clauses too. On an output stream that cannot
  encode the marks, a rejected login ends in a \<^verbatim>\<open>UnicodeEncodeError\<close> that leaves
  \<^verbatim>\<open>send_email\<close>; and when every call succeeds, the mail is handed to \<^verbatim>\<open>sendmail\<close> with
  the envelope, the connection is closed, and \<^verbatim>\<open>send_email\<close> still ends in the same
  error instead of returning \<^verbatim>\<open>True\<close>.
\<close>

theorem send_email_status_print_raises:
  "fst (send_email_on False ex_sender ex_request server_rejects_login ex_files world0) =
     Inl (Exn UnicodeEncodeError ''codec can't encode character'') \<and>
   fst (send_email_on False ex_sender ex_request server_ok ex_files world0) =
     Inl (Exn UnicodeEncodeError ''codec can't encode character'') \<and>
   map (\<lambda>c. fst (snd c))
     (sendmail_calls (snd (send_email_on False ex_sender ex_request server_ok ex_files world0))) =
     [[''r@x.com'', ''a@x.com'', ''b@x.com'', ''s@x.com'']] \<and>
   conn (snd (send_email_on False ex_sender ex_request server_ok ex_files world0)) = Closed"
  by code_simp

text \<open>
  On such a stream no run of \<^verbatim>\<open>send_email\<close> returns a value: every path ends with a
  status line.
\<close>

lemma send_email_on_raises:
  "\<exists>e w'. send_email_on False self req env fs w = (Inl e, w')"
proof -
  obtain m w1 where c: "compose self req fs w = (Inr m, w1)"
    using compose_eq by blast
  obtain r w2 where t: "transmit_on False self req env (recipients req) m w1 = (r, w2)"
    by (cases "transmit_on False self req env (recipients req) m w1")
  have "\<exists>e. r = Inl e"
    using t
    by (auto simp: transmit_on_def Let_def print_status_def split: option.splits sum.splits)
  then show ?thesis
    using c t by (auto simp: send_email_on_def send_email_try_on_def print_status_def)
qed




text \<open>
  C6. Composition succeeds; the first part of the message is the text part with subtype
  \<^verbatim>\<open>html\<close> when \<^verbatim>\<open>is_html\<close> holds and \<^verbatim>\<open>plain\<close> otherwise, it carries the body
  unchanged, and it is the only text part of the message.
\<close>

theorem compose_one_body_part:
  "\<exists>m w1.
     compose self req fs w = (Inr m, w1) \<and>
     hd (parts m) =
       \<lparr>maintype = ''text'', subtype = (if is_html req then ''html'' else ''plain''),
        part_headers = [], payload = Some (Text (message_body req))\<rparr> \<and>
     filter (\<lambda>p. maintype p = ''text'') (parts m) = [hd (parts m)]"
  by (simp add: compose_eq no_text_attachment MIMEText_def)

theorem compose_one_body_part_witness:
  "filter (\<lambda>p. maintype p = ''text'')
     (parts (projr (fst (compose ex_sender ex_request ex_files world0)))) =
     [\<lparr>maintype = ''text'', subtype = ''plain'', part_headers = [],
       payload = Some (Text ''Hello'')\<rparr>] \<and>
   filter (\<lambda>p. maintype p = ''text'')
     (parts (projr (fst (compose ex_sender (ex_request\<lparr>is_html := True\<rparr>) ex_files world0)))) =
     [\<lparr>maintype = ''text'', subtype = ''html'', part_headers = [],
       payload = Some (Text ''Hello'')\<rparr>]"
  using compose_one_body_part [of ex_sender ex_request ex_files world0]
    compose_one_body_part [of ex_sender "ex_request\<lparr>is_html := True\<rparr>" ex_files world0]
  by (auto simp: ex_request_def)



text \<open>
  C8. The composed message has exactly one Cc header, the cc addresses joined in order by
  \<^verbatim>\<open>", "\<close>, when the cc list is present and not empty, and no Cc header otherwise.
\<close>

theorem compose_cc_header:
  "\<exists>m w1.
     compose self req fs w = (Inr m, w1) \<and>
     filter (\<lambda>h. fst h = ''Cc'') (headers m) =
       (case cc req of
          None \<Rightarrow> []
        | Some xs \<Rightarrow> if xs = [] then [] else [(''Cc'', join '', '' xs)])"
  by (cases "cc req") (simp_all add: compose_eq composed_headers_def)

theorem compose_cc_header_witness:
  "filter (\<lambda>h. fst h = ''Cc'')
     (headers (projr (fst (compose ex_sender ex_request ex_files world0)))) =
     [(''Cc'', ''a@x.com, b@x.com'')] \<and>
   filter (\<lambda>h. fst h = ''Cc'')
     (headers (projr (fst (compose ex_sender (ex_request\<lparr>cc := Some []\<rparr>) ex_files world0)))) =
     [] \<and>
   filter (\<lambda>h. fst h = ''Cc'')
     (headers (projr (fst (compose ex_sender dup_request ex_files world0)))) =
     [(''Cc'', ''r@x.com'')]"
  using compose_cc_header [of ex_sender ex_request ex_files world0]
    compose_cc_header [of ex_sender "ex_request\<lparr>cc := Some []\<rparr>" ex_files world0]
    compose_cc_header [of ex_sender dup_request ex_files world0]
  by (auto simp: ex_request_def dup_request_def)




text \<open>
  C10, as stated: for every \<open>b \<noteq> 0\<close>, \<^verbatim>\<open>divide_numbers\<close> returns the quotient without
  raising. It fails for a quotient beyond the float range: Python's division raises
  \<^verbatim>\<open>OverflowError\<close>.
\<close>

theorem divide_numbers_overflow:
  "divide_numbers (10 ^ 400) 1 =
     Inl (Exn OverflowError ''integer division result too large for a float'')"
  by (simp add: divide_numbers_def int_truediv_def float_overflow_bound_def)

text \<open>
  C10, amended: \<^verbatim>\<open>divide_numbers a b\<close> raises \<^verbatim>\<open>ValueError\<close> exactly when
  \<open>b = 0\<close>. For \<open>b \<noteq> 0\<close> it returns the float nearest to the quotient when the
  quotient is within the float range, and raises \<^verbatim>\<open>OverflowError\<close> otherwise.
\<close>

theorem divide_numbers_cases:
  "((\<exists>msg. divide_numbers a b = Inl (Exn ValueError msg)) \<longleftrightarrow> b = 0) \<and>
   (b = 0 \<longrightarrow> divide_numbers a b = Inl (Exn ValueError ''Cannot divide by zero'')) \<and>
   (b \<noteq> 0 \<and> \<bar>real_of_int a / real_of_int b\<bar> < float_overflow_bound \<longrightarrow>
      divide_numbers a b = Inr (Nearest_float (real_of_int a / real_of_int b))) \<and>
   (b \<noteq> 0 \<and> float_overflow_bound \<le> \<bar>real_of_int a / real_of_int b\<bar> \<longrightarrow>
      divide_numbers a b =
        Inl (Exn OverflowError ''integer division result too large for a float''))"
  by (auto simp: divide_numbers_def int_truediv_def)

theorem divide_numbers_cases_witness:
  "divide_numbers 1 0 = Inl (Exn ValueError ''Cannot divide by zero'') \<and>
   divide_numbers 6 3 = Inr (Nearest_float 2) \<and>
   divide_numbers 1 4 = Inr (Nearest_float (1 / 4)) \<and>
   divide_numbers (2 ^ 1024) 1 =
     Inl (Exn OverflowError ''integer division result too large for a float'')"
  using divide_numbers_cases [of 1 0] divide_numbers_cases [of 6 3]
    divide_numbers_cases [of 1 4] divide_numbers_cases [of "2 ^ 1024" 1]
  by (simp add: float_overflow_bound_def)

end
